theory Spec2Isabelle
  imports Main "HOL-Library.Sublist"
begin

section \<open>The screenshot script \<open>verify_header.py\<close>\<close>

text \<open>
  The script is one straight line of calls into the Playwright library:
  \<^verbatim>\<open>
  def run(playwright):
      browser = playwright.chromium.launch()
      context = browser.new_context(viewport={'width': 375, 'height': 667})
      page = context.new_page()
      page.goto("http://127.0.0.1:5173/")
      page.screenshot(path="jules-scratch/verification/verification.png")
      browser.close()

  with sync_playwright() as playwright:
      run(playwright)
  \<close>
  The library is not part of the repository, so it is a parameter of the model: a record
  of the outcomes of its calls, each of which either returns or raises. What the script
  does is the list of the library calls it makes, in order, together with its own result:
  \<open>Inr ()\<close> when it runs to its end, \<open>Inl e\<close> when the exception \<open>e\<close> leaves it.
\<close>

subsection \<open>Data\<close>

text \<open>An exception raised by the library, with its message.\<close>

datatype error = PlaywrightError string

text \<open>The \<open>viewport\<close> argument, a dictionary with the two keys \<open>width\<close> and \<open>height\<close>.\<close>

record viewport =
  width :: int
  height :: int

text \<open>The image that \<open>page.screenshot\<close> captures (and returns): its size in pixels and its data.\<close>

record image =
  px_width :: int
  px_height :: int
  px_data :: "nat list"

text \<open>
  The library calls. Browsers, contexts and pages are objects the library hands out; the
  script cannot make one up, so their types \<open>'b\<close>, \<open>'c\<close> and \<open>'p\<close> are left open.
  \<open>CmEnter\<close> and \<open>CmExit\<close> are the entry and the exit of the \<open>sync_playwright()\<close> context
  manager; the exit is told the exception that left the body, if any.
\<close>

datatype ('b, 'c, 'p) call =
    is_Launch: Launch
  | is_NewContext: NewContext 'b viewport
  | is_NewPage: NewPage 'c
  | is_Goto: Goto 'p string
  | is_Screenshot: Screenshot 'p string
  | is_Close: Close 'b
  | is_CmEnter: CmEnter
  | is_CmExit: CmExit "error option"

text \<open>
  The \<open>playwright\<close> object: what each call returns or raises in this execution. The values
  returned by \<open>goto\<close> and \<open>close\<close> are not used by the script.
\<close>

record ('b, 'c, 'p) playwright =
  launch :: "error + 'b"
  new_context :: "'b \<Rightarrow> viewport \<Rightarrow> error + 'c"
  new_page :: "'c \<Rightarrow> error + 'p"
  goto :: "'p \<Rightarrow> string \<Rightarrow> error + unit"
  screenshot :: "'p \<Rightarrow> string \<Rightarrow> error + image"
  close :: "'b \<Rightarrow> error + unit"

text \<open>
  The context manager \<open>sync_playwright()\<close>: \<open>__enter__\<close> returns the \<open>playwright\<close> object or
  raises; \<open>__exit__\<close> receives the pending exception (or none) and returns a truth value or
  raises.
\<close>

record ('b, 'c, 'p) sync_playwright =
  enter :: "error + ('b, 'c, 'p) playwright"
  exit :: "error option \<Rightarrow> error + bool"

text \<open>What the operating system hands to the interpreter.\<close>

record process =
  argv :: "string list"
  environ :: "(string \<times> string) list"

subsection \<open>Sequencing with exceptions\<close>

text \<open>
  A computation takes the calls made so far and returns them extended, with its result.
  \<open>invoke c r\<close> is the library call \<open>c\<close> whose outcome is \<open>r\<close>; \<open>io_bind\<close> is Python's
  sequencing of statements: an exception skips everything that follows.
\<close>

type_synonym ('e, 'a) io = "'e list \<Rightarrow> 'e list \<times> (error + 'a)"

definition invoke :: "'e \<Rightarrow> error + 'a \<Rightarrow> ('e, 'a) io" where
  "invoke c r = (\<lambda>tr. (tr @ [c], r))"

definition io_bind :: "('e, 'a) io \<Rightarrow> ('a \<Rightarrow> ('e, 'b) io) \<Rightarrow> ('e, 'b) io" where
  "io_bind m f = (\<lambda>tr. case m tr of
       (tr', Inl e) \<Rightarrow> (tr', Inl e)
     | (tr', Inr a) \<Rightarrow> f a tr')"

subsection \<open>The library calls as computations\<close>

definition chromium_launch :: "('b, 'c, 'p) playwright \<Rightarrow> (('b, 'c, 'p) call, 'b) io" where
  "chromium_launch pw = invoke Launch (launch pw)"

definition browser_new_context ::
  "('b, 'c, 'p) playwright \<Rightarrow> 'b \<Rightarrow> viewport \<Rightarrow> (('b, 'c, 'p) call, 'c) io" where
  "browser_new_context pw b vp = invoke (NewContext b vp) (new_context pw b vp)"

definition context_new_page :: "('b, 'c, 'p) playwright \<Rightarrow> 'c \<Rightarrow> (('b, 'c, 'p) call, 'p) io" where
  "context_new_page pw c = invoke (NewPage c) (new_page pw c)"

definition page_goto ::
  "('b, 'c, 'p) playwright \<Rightarrow> 'p \<Rightarrow> string \<Rightarrow> (('b, 'c, 'p) call, unit) io" where
  "page_goto pw p url = invoke (Goto p url) (goto pw p url)"

definition page_screenshot ::
  "('b, 'c, 'p) playwright \<Rightarrow> 'p \<Rightarrow> string \<Rightarrow> (('b, 'c, 'p) call, image) io" where
  "page_screenshot pw p path = invoke (Screenshot p path) (screenshot pw p path)"

definition browser_close :: "('b, 'c, 'p) playwright \<Rightarrow> 'b \<Rightarrow> (('b, 'c, 'p) call, unit) io" where
  "browser_close pw b = invoke (Close b) (close pw b)"

subsection \<open>The script\<close>

definition run :: "('b, 'c, 'p) playwright \<Rightarrow> (('b, 'c, 'p) call, unit) io" where
  "run playwright =
     io_bind (chromium_launch playwright) (\<lambda>browser.
     io_bind (browser_new_context playwright browser \<lparr>width = 375, height = 667\<rparr>) (\<lambda>context.
     io_bind (context_new_page playwright context) (\<lambda>page.
     io_bind (page_goto playwright page ''http://127.0.0.1:5173/'') (\<lambda>_.
     io_bind (page_screenshot playwright page ''jules-scratch/verification/verification.png'') (\<lambda>_.
     browser_close playwright browser)))))"

text \<open>
  The \<open>with\<close> statement: the body runs between \<open>__enter__\<close> and \<open>__exit__\<close>. \<open>__exit__\<close> is
  called however the body ends. When the body raised, a true result of \<open>__exit__\<close> swallows
  the exception and any other result lets it go on; an exception raised by \<open>__exit__\<close>
  itself replaces it.
\<close>

definition with_exit ::
  "('b, 'c, 'p) sync_playwright \<Rightarrow> (('b, 'c, 'p) call, unit) io \<Rightarrow> (('b, 'c, 'p) call, unit) io" where
  "with_exit cm body = (\<lambda>tr. case body tr of
       (tr', Inr _) \<Rightarrow>
         (case exit cm None of
            Inl e' \<Rightarrow> (tr' @ [CmExit None], Inl e')
          | Inr _ \<Rightarrow> (tr' @ [CmExit None], Inr ()))
     | (tr', Inl e) \<Rightarrow>
         (case exit cm (Some e) of
            Inl e' \<Rightarrow> (tr' @ [CmExit (Some e)], Inl e')
          | Inr swallow \<Rightarrow> (tr' @ [CmExit (Some e)], if swallow then Inr () else Inl e)))"

definition script :: "('b, 'c, 'p) sync_playwright \<Rightarrow> (('b, 'c, 'p) call, unit) io" where
  "script cm =
     io_bind (invoke CmEnter (enter cm)) (\<lambda>playwright.
     with_exit cm (run playwright))"

text \<open>
  The whole process: the module body runs from an empty history. Nothing in the source
  mentions \<open>sys.argv\<close> or \<open>os.environ\<close>.
\<close>

definition main :: "process \<Rightarrow> ('b, 'c, 'p) sync_playwright \<Rightarrow> ('b, 'c, 'p) call list \<times> (error + unit)" where
  "main proc cm = script cm []"

subsection \<open>Vocabulary of the properties\<close>

text \<open>
  The sequence of operations the specification lists for \<open>run\<close>, for the browser, the
  context and the page that the library handed out.
\<close>

definition spec_sequence :: "'b \<Rightarrow> 'c \<Rightarrow> 'p \<Rightarrow> ('b, 'c, 'p) call list" where
  "spec_sequence b c p =
     [Launch, NewContext b \<lparr>width = 375, height = 667\<rparr>, NewPage c,
      Goto p ''http://127.0.0.1:5173/'',
      Screenshot p ''jules-scratch/verification/verification.png'', Close b]"

text \<open>
  A call without the identity of the objects it is made on: the operation and the
  arguments the script wrote. Two executions get different objects from the library, so
  their operations are compared after \<open>erase\<close>.
\<close>

definition erase :: "('b, 'c, 'p) call \<Rightarrow> (unit, unit, unit) call" where
  "erase = map_call (\<lambda>_. ()) (\<lambda>_. ()) (\<lambda>_. ())"

text \<open>
  The exception, if any, that a call on the \<open>playwright\<close> object (or on an object obtained
  from it) raises in this execution. The two calls on the context manager are not calls
  on that object.
\<close>

fun raised :: "('b, 'c, 'p) playwright \<Rightarrow> ('b, 'c, 'p) call \<Rightarrow> error option" where
  "raised pw Launch = (case launch pw of Inl e \<Rightarrow> Some e | Inr _ \<Rightarrow> None)"
| "raised pw (NewContext b vp) = (case new_context pw b vp of Inl e \<Rightarrow> Some e | Inr _ \<Rightarrow> None)"
| "raised pw (NewPage c) = (case new_page pw c of Inl e \<Rightarrow> Some e | Inr _ \<Rightarrow> None)"
| "raised pw (Goto p url) = (case goto pw p url of Inl e \<Rightarrow> Some e | Inr _ \<Rightarrow> None)"
| "raised pw (Screenshot p path) = (case screenshot pw p path of Inl e \<Rightarrow> Some e | Inr _ \<Rightarrow> None)"
| "raised pw (Close b) = (case close pw b of Inl e \<Rightarrow> Some e | Inr _ \<Rightarrow> None)"
| "raised pw CmEnter = None"
| "raised pw (CmExit _) = None"

text \<open>
  Modelled from the spec: how the browser renders is not in the repository. The spec
  expects an image whose pixel dimensions are those of the viewport, subject to the device
  pixel ratio: a screenshot taken of a page shows the viewport of the page's context,
  scaled by the ratio \<open>d\<close>.
\<close>

definition renders_viewport :: "int \<Rightarrow> ('b, 'c, 'p) playwright \<Rightarrow> bool" where
  "renders_viewport d pw =
     (\<forall>b vp c p path img.
        new_context pw b vp = Inr c \<longrightarrow> new_page pw c = Inr p \<longrightarrow>
        screenshot pw p path = Inr img \<longrightarrow>
        px_width img = d * width vp \<and> px_height img = d * height vp)"

text \<open>
  Modelled from the spec: the page content is static when a screenshot of a page that was
  opened in a context with the viewport \<open>vp\<close> and sent to the address \<open>url\<close> always shows
  the same image \<open>shot\<close>.
\<close>

definition static_content ::
  "image \<Rightarrow> string \<Rightarrow> viewport \<Rightarrow> ('b, 'c, 'p) playwright \<Rightarrow> bool" where
  "static_content shot url vp pw =
     (\<forall>b c p path img.
        new_context pw b vp = Inr c \<longrightarrow> new_page pw c = Inr p \<longrightarrow>
        goto pw p url = Inr () \<longrightarrow> screenshot pw p path = Inr img \<longrightarrow>
        img = shot)"

subsection \<open>Some executions\<close>

text \<open>Every call succeeds; the library numbers the objects it hands out.\<close>

definition healthy :: "(nat, nat, nat) playwright" where
  "healthy =
     \<lparr>launch = Inr 0,
      new_context = (\<lambda>b vp. Inr 1),
      new_page = (\<lambda>c. Inr 2),
      goto = (\<lambda>p url. Inr ()),
      screenshot = (\<lambda>p path. Inr \<lparr>px_width = 375, px_height = 667, px_data = []\<rparr>),
      close = (\<lambda>b. Inr ())\<rparr>"

text \<open>
  A second execution in which every call succeeds: the library hands out other objects,
  and the page shows the same picture.
\<close>

definition second_run :: "(nat, nat, nat) playwright" where
  "second_run =
     healthy\<lparr>launch := Inr 7, new_context := (\<lambda>b vp. Inr 8), new_page := (\<lambda>c. Inr 9)\<rparr>"

text \<open>The picture that \<open>healthy\<close> and \<open>second_run\<close> show.\<close>

definition still_page :: image where
  "still_page = \<lparr>px_width = 375, px_height = 667, px_data = []\<rparr>"

text \<open>Nothing listens at the address: the navigation raises.\<close>

definition unreachable_server :: "(nat, nat, nat) playwright" where
  "unreachable_server =
     healthy\<lparr>goto := (\<lambda>p url. Inl (PlaywrightError ''net::ERR_CONNECTION_REFUSED''))\<rparr>"

text \<open>A second execution in which nothing listens at the address, with other objects.\<close>

definition second_unreachable :: "(nat, nat, nat) playwright" where
  "second_unreachable =
     second_run\<lparr>goto := (\<lambda>p url. Inl (PlaywrightError ''net::ERR_CONNECTION_REFUSED''))\<rparr>"

text \<open>The browser cannot be started: the launch raises.\<close>

definition no_browser :: "(nat, nat, nat) playwright" where
  "no_browser = healthy\<lparr>launch := Inl (PlaywrightError ''browser executable not found'')\<rparr>"

text \<open>The image cannot be written: the screenshot raises.\<close>

definition read_only_disk :: "(nat, nat, nat) playwright" where
  "read_only_disk =
     healthy\<lparr>screenshot := (\<lambda>p path. Inl (PlaywrightError ''EROFS: read-only file system''))\<rparr>"

text \<open>
  A browser that renders a one-colour page: a context is known by its viewport, a page by
  the viewport of its context, and a screenshot has the size of that viewport.
\<close>

definition blank_page :: "string \<Rightarrow> viewport \<Rightarrow> image" where
  "blank_page url vp = \<lparr>px_width = width vp, px_height = height vp, px_data = []\<rparr>"

definition plain_browser :: "(nat, viewport, viewport) playwright" where
  "plain_browser =
     \<lparr>launch = Inr 0,
      new_context = (\<lambda>b vp. Inr vp),
      new_page = (\<lambda>c. Inr c),
      goto = (\<lambda>p url. Inr ()),
      screenshot = (\<lambda>p path. Inr (blank_page [] p)),
      close = (\<lambda>b. Inr ())\<rparr>"

text \<open>
  A context manager that hands out the given \<open>playwright\<close> object and whose \<open>__exit__\<close>
  returns a false value, so that it swallows nothing.
\<close>

definition session :: "('b, 'c, 'p) playwright \<Rightarrow> ('b, 'c, 'p) sync_playwright" where
  "session pw = \<lparr>enter = Inr pw, exit = (\<lambda>_. Inr False)\<rparr>"

text \<open>Two different process environments.\<close>

definition bare_process :: process where
  "bare_process = \<lparr>argv = [''verify_header.py''], environ = []\<rparr>"

definition other_process :: process where
  "other_process =
     \<lparr>argv = [''verify_header.py'', ''http://example.org/''], environ = [(''URL'', ''http://example.org/'')]\<rparr>"

section \<open>Properties\<close>

subsection \<open>The executions of \<open>run\<close>, case by case\<close>

lemmas io_defs = invoke_def io_bind_def chromium_launch_def browser_new_context_def
  context_new_page_def page_goto_def page_screenshot_def browser_close_def

text \<open>
  \<open>run\<close> stops at the first call that raises, so an execution is one of six: one for each
  call before \<open>close\<close> that can raise, and one that reaches \<open>close\<close>.
\<close>

lemma run_cases [case_names launch new_context new_page goto screenshot close]:
  obtains
    e where "launch pw = Inl e" "\<And>tr. run pw tr = (tr @ [Launch], Inl e)"
  | b e where "launch pw = Inr b"
      "new_context pw b \<lparr>width = 375, height = 667\<rparr> = Inl e"
      "\<And>tr. run pw tr = (tr @ [Launch, NewContext b \<lparr>width = 375, height = 667\<rparr>], Inl e)"
  | b c e where "launch pw = Inr b"
      "new_context pw b \<lparr>width = 375, height = 667\<rparr> = Inr c"
      "new_page pw c = Inl e"
      "\<And>tr. run pw tr = (tr @ [Launch, NewContext b \<lparr>width = 375, height = 667\<rparr>, NewPage c], Inl e)"
  | b c p e where "launch pw = Inr b"
      "new_context pw b \<lparr>width = 375, height = 667\<rparr> = Inr c"
      "new_page pw c = Inr p"
      "goto pw p ''http://127.0.0.1:5173/'' = Inl e"
      "\<And>tr. run pw tr = (tr @ [Launch, NewContext b \<lparr>width = 375, height = 667\<rparr>, NewPage c,
          Goto p ''http://127.0.0.1:5173/''], Inl e)"
  | b c p e where "launch pw = Inr b"
      "new_context pw b \<lparr>width = 375, height = 667\<rparr> = Inr c"
      "new_page pw c = Inr p"
      "goto pw p ''http://127.0.0.1:5173/'' = Inr ()"
      "screenshot pw p ''jules-scratch/verification/verification.png'' = Inl e"
      "\<And>tr. run pw tr = (tr @ [Launch, NewContext b \<lparr>width = 375, height = 667\<rparr>, NewPage c,
          Goto p ''http://127.0.0.1:5173/'',
          Screenshot p ''jules-scratch/verification/verification.png''], Inl e)"
  | b c p img where "launch pw = Inr b"
      "new_context pw b \<lparr>width = 375, height = 667\<rparr> = Inr c"
      "new_page pw c = Inr p"
      "goto pw p ''http://127.0.0.1:5173/'' = Inr ()"
      "screenshot pw p ''jules-scratch/verification/verification.png'' = Inr img"
      "\<And>tr. run pw tr = (tr @ spec_sequence b c p, close pw b)"
proof (cases "launch pw")
  case (Inl e)
  then have "\<And>tr. run pw tr = (tr @ [Launch], Inl e)"
    by (simp add: run_def io_defs)
  with Inl show ?thesis using that(1) by blast
next
  case b: (Inr b)
  show ?thesis
  proof (cases "new_context pw b \<lparr>width = 375, height = 667\<rparr>")
    case (Inl e)
    with b have "\<And>tr. run pw tr = (tr @ [Launch, NewContext b \<lparr>width = 375, height = 667\<rparr>], Inl e)"
      by (simp add: run_def io_defs)
    with b Inl show ?thesis using that(2) by blast
  next
    case c: (Inr c)
    show ?thesis
    proof (cases "new_page pw c")
      case (Inl e)
      with b c have "\<And>tr. run pw tr =
          (tr @ [Launch, NewContext b \<lparr>width = 375, height = 667\<rparr>, NewPage c], Inl e)"
        by (simp add: run_def io_defs)
      with b c Inl show ?thesis using that(3) by blast
    next
      case p: (Inr p)
      show ?thesis
      proof (cases "goto pw p ''http://127.0.0.1:5173/''")
        case (Inl e)
        with b c p have "\<And>tr. run pw tr =
            (tr @ [Launch, NewContext b \<lparr>width = 375, height = 667\<rparr>, NewPage c,
              Goto p ''http://127.0.0.1:5173/''], Inl e)"
          by (simp add: run_def io_defs)
        with b c p Inl show ?thesis using that(4) by blast
      next
        case g: (Inr u)
        show ?thesis
        proof (cases "screenshot pw p ''jules-scratch/verification/verification.png''")
          case (Inl e)
          with b c p g have "\<And>tr. run pw tr =
              (tr @ [Launch, NewContext b \<lparr>width = 375, height = 667\<rparr>, NewPage c,
                Goto p ''http://127.0.0.1:5173/'',
                Screenshot p ''jules-scratch/verification/verification.png''], Inl e)"
            by (simp add: run_def io_defs)
          with b c p g Inl show ?thesis using that(5) by simp
        next
          case (Inr img)
          with b c p g have "\<And>tr. run pw tr = (tr @ spec_sequence b c p, close pw b)"
            by (simp add: run_def io_defs spec_sequence_def)
          with b c p g Inr show ?thesis using that(6) by simp
        qed
      qed
    qed
  qed
qed

lemma run_append: "run pw tr = (tr @ fst (run pw []), snd (run pw []))"
  by (cases pw rule: run_cases) simp_all

lemma script_enter_raises:
  "enter cm = Inl e \<Longrightarrow> script cm tr = (tr @ [CmEnter], Inl e)"
  by (simp add: script_def io_defs)

lemma script_trace:
  "enter cm = Inr pw \<Longrightarrow>
   fst (script cm []) =
     CmEnter # fst (run pw []) @ [CmExit (case snd (run pw []) of Inl e \<Rightarrow> Some e | Inr _ \<Rightarrow> None)]"
  by (subst run_append [of pw "[CmEnter]"] run_append [of pw "[]"])
     (simp add: script_def io_defs with_exit_def run_append [of pw "[CmEnter]"] split: sum.splits)

lemma script_result:
  "enter cm = Inr pw \<Longrightarrow>
   snd (script cm []) =
     (case snd (run pw []) of
        Inr _ \<Rightarrow> (case exit cm None of Inl e' \<Rightarrow> Inl e' | Inr _ \<Rightarrow> Inr ())
      | Inl e \<Rightarrow> (case exit cm (Some e) of Inl e' \<Rightarrow> Inl e'
                  | Inr swallow \<Rightarrow> if swallow then Inr () else Inl e))"
  by (simp add: script_def io_defs with_exit_def run_append [of pw "[CmEnter]"] split: sum.splits)

subsection \<open>The sequence of operations\<close>

text \<open>
  C1, as the specification words it: every execution of \<open>run\<close> performs the whole sequence,
  up to the release of the browser. It does not when a call raises: with nothing listening
  at the address, \<open>run\<close> stops at the navigation, takes no screenshot and does not close
  the browser.
\<close>

theorem run_sequence_counterexample:
  "fst (run unreachable_server []) =
     [Launch, NewContext 0 \<lparr>width = 375, height = 667\<rparr>, NewPage 1, Goto 2 ''http://127.0.0.1:5173/'']
   \<and> fst (run unreachable_server []) \<noteq> spec_sequence 0 1 2"
  by (simp add: run_def io_defs unreachable_server_def healthy_def spec_sequence_def)

text \<open>
  C1, amended: in every execution of \<open>run\<close> the operations performed, with their arguments,
  are an initial segment of the sequence launch, new context with the viewport 375 by 667,
  new page, navigation to the address, screenshot to the fixed path, close, and nothing
  else is performed. When the calls up to the screenshot succeed, and so whenever \<open>run\<close>
  returns, the sequence is performed in full, in this order, on the browser, the context
  and the page that the library handed out.
\<close>

theorem run_sequence:
  "prefix (map erase (fst (run pw []))) (spec_sequence () () ())
   \<and> (\<forall>b c p img.
        launch pw = Inr b \<longrightarrow> new_context pw b \<lparr>width = 375, height = 667\<rparr> = Inr c \<longrightarrow>
        new_page pw c = Inr p \<longrightarrow> goto pw p ''http://127.0.0.1:5173/'' = Inr () \<longrightarrow>
        screenshot pw p ''jules-scratch/verification/verification.png'' = Inr img \<longrightarrow>
        fst (run pw []) = spec_sequence b c p)
   \<and> (snd (run pw []) = Inr () \<longrightarrow> (\<exists>b c p. fst (run pw []) = spec_sequence b c p))"
  by (cases pw rule: run_cases) (simp_all add: erase_def spec_sequence_def)

theorem run_sequence_witness:
  "launch healthy = Inr 0 \<and> new_context healthy 0 \<lparr>width = 375, height = 667\<rparr> = Inr 1
   \<and> new_page healthy 1 = Inr 2 \<and> goto healthy 2 ''http://127.0.0.1:5173/'' = Inr ()
   \<and> screenshot healthy 2 ''jules-scratch/verification/verification.png''
        = Inr \<lparr>px_width = 375, px_height = 667, px_data = []\<rparr>
   \<and> snd (run healthy []) = Inr ()
   \<and> fst (run healthy []) = spec_sequence 0 1 2"
proof -
  have h: "launch healthy = Inr 0" "new_context healthy 0 \<lparr>width = 375, height = 667\<rparr> = Inr 1"
    "new_page healthy 1 = Inr 2" "goto healthy 2 ''http://127.0.0.1:5173/'' = Inr ()"
    "screenshot healthy 2 ''jules-scratch/verification/verification.png''
        = Inr \<lparr>px_width = 375, px_height = 667, px_data = []\<rparr>"
    by (simp_all add: healthy_def)
  have r: "snd (run healthy []) = Inr ()"
    by (simp add: run_def io_defs healthy_def)
  from run_sequence [of healthy] h have "fst (run healthy []) = spec_sequence 0 1 2"
    by blast
  with h r show ?thesis by simp
qed

subsection \<open>The script as a whole\<close>

text \<open>
  The calls of the script are the entry of the context manager, the calls of \<open>run\<close> and
  the exit of the context manager.
\<close>

lemma script_calls:
  "c \<in> set (fst (script cm [])) \<Longrightarrow>
   c = CmEnter \<or> is_CmExit c \<or> (\<exists>pw. enter cm = Inr pw \<and> c \<in> set (fst (run pw [])))"
  by (cases "enter cm") (auto simp: script_enter_raises script_trace)

lemma run_calls:
  "c \<in> set (fst (run pw [])) \<Longrightarrow>
   \<exists>b k p. c \<in> set (spec_sequence b k p)"
  by (cases pw rule: run_cases) (auto simp: spec_sequence_def)

subsection \<open>Failures\<close>

text \<open>
  C2: when a call of \<open>run\<close> raises, that call is the last one \<open>run\<close> makes (nothing is
  tried afterwards, so there is no recovery), no call is made twice (no retry), and the
  exception leaves \<open>run\<close> as it was raised (no translation). In the script the only thing
  that follows is the exit of the context manager, which is handed the same exception;
  the script then ends with it, or with the exception that the exit itself raises. Only
  a true result of the library's \<open>__exit__\<close> could stop it, and the script has no say in
  that.
\<close>

theorem failure_propagates:
  assumes "c \<in> set (fst (run pw []))" and "raised pw c = Some e"
  shows "snd (run pw []) = Inl e \<and> last (fst (run pw [])) = c \<and> distinct (fst (run pw []))
    \<and> (\<forall>cm. enter cm = Inr pw \<longrightarrow>
          fst (script cm []) = CmEnter # fst (run pw []) @ [CmExit (Some e)]
          \<and> (exit cm (Some e) = Inr False \<longrightarrow> snd (script cm []) = Inl e)
          \<and> (\<forall>e'. exit cm (Some e) = Inl e' \<longrightarrow> snd (script cm []) = Inl e'))"
proof -
  have r: "snd (run pw []) = Inl e \<and> last (fst (run pw [])) = c \<and> distinct (fst (run pw []))"
    using assms by (cases pw rule: run_cases) (auto simp: spec_sequence_def split: sum.splits)
  then show ?thesis
    by (simp add: script_trace script_result)
qed

theorem failure_propagates_witness:
  "Goto 2 ''http://127.0.0.1:5173/'' \<in> set (fst (run unreachable_server []))
   \<and> raised unreachable_server (Goto 2 ''http://127.0.0.1:5173/'')
        = Some (PlaywrightError ''net::ERR_CONNECTION_REFUSED'')
   \<and> snd (run unreachable_server []) = Inl (PlaywrightError ''net::ERR_CONNECTION_REFUSED'')
   \<and> enter (session unreachable_server) = Inr unreachable_server
   \<and> exit (session unreachable_server) (Some (PlaywrightError ''net::ERR_CONNECTION_REFUSED''))
        = Inr False
   \<and> snd (script (session unreachable_server) [])
        = Inl (PlaywrightError ''net::ERR_CONNECTION_REFUSED'')"
proof -
  have h1: "Goto 2 ''http://127.0.0.1:5173/'' \<in> set (fst (run unreachable_server []))"
    by (simp add: run_def io_defs unreachable_server_def healthy_def)
  have h2: "raised unreachable_server (Goto 2 ''http://127.0.0.1:5173/'')
        = Some (PlaywrightError ''net::ERR_CONNECTION_REFUSED'')"
    by (simp add: unreachable_server_def healthy_def)
  have h3: "enter (session unreachable_server) = Inr unreachable_server"
    and h4: "exit (session unreachable_server)
        (Some (PlaywrightError ''net::ERR_CONNECTION_REFUSED'')) = Inr False"
    by (simp_all add: session_def)
  from failure_propagates [OF h1 h2] h3 h4 h1 h2 show ?thesis
    by blast
qed

subsection \<open>Fixed arguments\<close>

text \<open>
  C3: whatever the process is given and whatever the library does, a browsing context is
  only ever created with the viewport of width 375 and height 667, and a navigation only
  ever goes to \<open>http://127.0.0.1:5173/\<close>.
\<close>

theorem fixed_viewport_and_url:
  "(NewContext b vp \<in> set (fst (main proc cm)) \<longrightarrow> vp = \<lparr>width = 375, height = 667\<rparr>)
   \<and> (Goto p url \<in> set (fst (main proc cm)) \<longrightarrow> url = ''http://127.0.0.1:5173/'')"
  by (auto simp: main_def spec_sequence_def dest!: script_calls run_calls)

theorem fixed_viewport_and_url_witness:
  "NewContext 0 \<lparr>width = 375, height = 667\<rparr> \<in> set (fst (main other_process (session healthy)))
   \<and> Goto 2 ''http://127.0.0.1:5173/'' \<in> set (fst (main other_process (session healthy)))"
proof -
  have "fst (main other_process (session healthy)) = CmEnter # spec_sequence 0 1 2 @ [CmExit None]"
    by (simp add: main_def script_def with_exit_def run_def io_defs session_def healthy_def
        spec_sequence_def)
  then show ?thesis
    using fixed_viewport_and_url [of 0 "\<lparr>width = 375, height = 667\<rparr>" other_process
        "session healthy" 2 "''http://127.0.0.1:5173/''"]
    by (simp add: spec_sequence_def)
qed

lemma script_filter:
  "enter cm = Inr pw \<Longrightarrow> \<not> P CmEnter \<Longrightarrow> (\<And>eo. \<not> P (CmExit eo)) \<Longrightarrow>
   filter P (fst (script cm [])) = filter P (fst (run pw []))"
  by (simp add: script_trace)

text \<open>
  C4: the script has no configuration surface. Its behaviour is the same whatever
  command-line arguments and environment variables the process has; every navigation goes
  to the loopback address \<open>127.0.0.1\<close>, port \<open>5173\<close>; the only call that names an output file
  is the screenshot, made at most once, and its path is the fixed relative path
  \<open>jules-scratch/verification/verification.png\<close>.
\<close>

theorem no_configuration_surface:
  "main proc cm = main proc' cm
   \<and> (\<forall>c \<in> set (fst (main proc cm)).
        (\<forall>p url. c = Goto p url \<longrightarrow> url = ''http://127.0.0.1:5173/'')
        \<and> (\<forall>p path. c = Screenshot p path \<longrightarrow>
              path = ''jules-scratch/verification/verification.png'' \<and> hd path \<noteq> CHR ''/''))
   \<and> length (filter is_Screenshot (fst (main proc cm))) \<le> 1"
proof -
  have one: "length (filter is_Screenshot (fst (script cm []))) \<le> 1"
  proof (cases "enter cm")
    case (Inl e)
    then show ?thesis by (simp add: script_enter_raises)
  next
    case (Inr pw)
    then have "filter is_Screenshot (fst (script cm [])) = filter is_Screenshot (fst (run pw []))"
      by (simp add: script_filter)
    then show ?thesis
      by (cases pw rule: run_cases) (simp_all add: spec_sequence_def)
  qed
  have args: "(\<forall>p url. c = Goto p url \<longrightarrow> url = ''http://127.0.0.1:5173/'')
        \<and> (\<forall>p path. c = Screenshot p path \<longrightarrow>
              path = ''jules-scratch/verification/verification.png'' \<and> hd path \<noteq> CHR ''/'')"
    if "c \<in> set (fst (script cm []))" for c
  proof -
    from script_calls [OF that] consider "c = CmEnter" | "is_CmExit c"
      | pw where "c \<in> set (fst (run pw []))"
      by blast
    then show ?thesis
    proof cases
      case 1
      then show ?thesis by simp
    next
      case 2
      then show ?thesis by (cases c) simp_all
    next
      case 3
      from run_calls [OF 3] obtain b k q where "c \<in> set (spec_sequence b k q)"
        by blast
      then show ?thesis
        by (auto simp: spec_sequence_def)
    qed
  qed
  show ?thesis
    unfolding main_def using one args by blast
qed

theorem no_configuration_surface_witness:
  "main bare_process (session healthy) = main other_process (session healthy)
   \<and> Goto 2 ''http://127.0.0.1:5173/'' \<in> set (fst (main bare_process (session healthy)))
   \<and> Screenshot 2 ''jules-scratch/verification/verification.png''
        \<in> set (fst (main bare_process (session healthy)))
   \<and> filter is_Screenshot (fst (main bare_process (session healthy)))
        = [Screenshot 2 ''jules-scratch/verification/verification.png'']"
proof -
  have t: "fst (main bare_process (session healthy)) = CmEnter # spec_sequence 0 1 2 @ [CmExit None]"
    by (simp add: main_def script_def with_exit_def run_def io_defs session_def healthy_def
        spec_sequence_def)
  have e: "main bare_process (session healthy) = main other_process (session healthy)"
    using no_configuration_surface [of bare_process "session healthy" other_process]
    by (rule conjunct1)
  have m: "Goto 2 ''http://127.0.0.1:5173/'' \<in> set (fst (main bare_process (session healthy)))"
    "Screenshot 2 ''jules-scratch/verification/verification.png''
        \<in> set (fst (main bare_process (session healthy)))"
    "filter is_Screenshot (fst (main bare_process (session healthy)))
        = [Screenshot 2 ''jules-scratch/verification/verification.png'']"
    unfolding t by (simp_all add: spec_sequence_def)
  from e m show ?thesis by (intro conjI)
qed

subsection \<open>The browser as a resource\<close>

text \<open>
  C5, as the specification words it: in every execution the browser is closed explicitly
  at the end. With nothing listening at the address the browser is launched and the
  script never calls \<open>close\<close>.
\<close>

theorem browser_scoped_counterexample:
  "launch unreachable_server = Inr 0
   \<and> filter is_Close (fst (script (session unreachable_server) [])) = []"
  by (simp add: script_def with_exit_def run_def io_defs session_def unreachable_server_def
      healthy_def)

text \<open>
  C5, amended: in every execution of \<open>run\<close> the launch of the browser is the first
  operation; whenever the calls up to the screenshot succeed, the last operation of \<open>run\<close>
  is the explicit \<open>close\<close> of that same browser, and it is the only \<open>close\<close>; \<open>close\<close> is
  never called on anything but the launched browser, nor anywhere but at the end; and when
  a call before it raises, the explicit \<open>close\<close> is not executed.
\<close>

theorem browser_scoped:
  "fst (run pw []) \<noteq> [] \<and> hd (fst (run pw [])) = Launch
   \<and> (\<forall>b c p img.
        launch pw = Inr b \<longrightarrow> new_context pw b \<lparr>width = 375, height = 667\<rparr> = Inr c \<longrightarrow>
        new_page pw c = Inr p \<longrightarrow> goto pw p ''http://127.0.0.1:5173/'' = Inr () \<longrightarrow>
        screenshot pw p ''jules-scratch/verification/verification.png'' = Inr img \<longrightarrow>
        last (fst (run pw [])) = Close b \<and> filter is_Close (fst (run pw [])) = [Close b])
   \<and> (\<forall>x. Close x \<in> set (fst (run pw [])) \<longrightarrow>
        launch pw = Inr x \<and> last (fst (run pw [])) = Close x)
   \<and> (\<forall>k e. k \<in> set (fst (run pw [])) \<longrightarrow> \<not> is_Close k \<longrightarrow> raised pw k = Some e \<longrightarrow>
        filter is_Close (fst (run pw [])) = [])"
proof -
  have a: "fst (run pw []) \<noteq> [] \<and> hd (fst (run pw [])) = Launch
   \<and> (\<forall>b c p img.
        launch pw = Inr b \<longrightarrow> new_context pw b \<lparr>width = 375, height = 667\<rparr> = Inr c \<longrightarrow>
        new_page pw c = Inr p \<longrightarrow> goto pw p ''http://127.0.0.1:5173/'' = Inr () \<longrightarrow>
        screenshot pw p ''jules-scratch/verification/verification.png'' = Inr img \<longrightarrow>
        last (fst (run pw [])) = Close b \<and> filter is_Close (fst (run pw [])) = [Close b])
   \<and> (\<forall>x. Close x \<in> set (fst (run pw [])) \<longrightarrow>
        launch pw = Inr x \<and> last (fst (run pw [])) = Close x)"
    by (cases pw rule: run_cases) (simp_all add: spec_sequence_def)
  have b: "filter is_Close (fst (run pw [])) = []"
    if "k \<in> set (fst (run pw []))" "\<not> is_Close k" "raised pw k = Some e" for k e
    using that
    by (cases pw rule: run_cases) (auto simp: spec_sequence_def split: sum.splits)
  from a b show ?thesis by blast
qed

theorem browser_scoped_witness:
  "launch healthy = Inr 0 \<and> new_context healthy 0 \<lparr>width = 375, height = 667\<rparr> = Inr 1
   \<and> new_page healthy 1 = Inr 2 \<and> goto healthy 2 ''http://127.0.0.1:5173/'' = Inr ()
   \<and> screenshot healthy 2 ''jules-scratch/verification/verification.png''
        = Inr \<lparr>px_width = 375, px_height = 667, px_data = []\<rparr>
   \<and> hd (fst (run healthy [])) = Launch
   \<and> last (fst (run healthy [])) = Close 0
   \<and> Close 0 \<in> set (fst (run healthy []))
   \<and> Goto 2 ''http://127.0.0.1:5173/'' \<in> set (fst (run unreachable_server []))
   \<and> \<not> is_Close (Goto (2::nat) ''http://127.0.0.1:5173/'' :: (nat, nat, nat) call)
   \<and> raised unreachable_server (Goto 2 ''http://127.0.0.1:5173/'')
        = Some (PlaywrightError ''net::ERR_CONNECTION_REFUSED'')
   \<and> filter is_Close (fst (run unreachable_server [])) = []"
proof -
  have h: "launch healthy = Inr 0" "new_context healthy 0 \<lparr>width = 375, height = 667\<rparr> = Inr 1"
    "new_page healthy 1 = Inr 2" "goto healthy 2 ''http://127.0.0.1:5173/'' = Inr ()"
    "screenshot healthy 2 ''jules-scratch/verification/verification.png''
        = Inr \<lparr>px_width = 375, px_height = 667, px_data = []\<rparr>"
    by (simp_all add: healthy_def)
  have m: "Close 0 \<in> set (fst (run healthy []))"
    by (simp add: run_def io_defs healthy_def)
  have g: "Goto 2 ''http://127.0.0.1:5173/'' \<in> set (fst (run unreachable_server []))"
    "\<not> is_Close (Goto (2::nat) ''http://127.0.0.1:5173/'' :: (nat, nat, nat) call)"
    "raised unreachable_server (Goto 2 ''http://127.0.0.1:5173/'')
        = Some (PlaywrightError ''net::ERR_CONNECTION_REFUSED'')"
    by (simp_all add: run_def io_defs unreachable_server_def healthy_def)
  from browser_scoped [of healthy] h
  have t: "hd (fst (run healthy [])) = Launch" "last (fst (run healthy [])) = Close 0"
    by blast+
  from browser_scoped [of unreachable_server] g
  have u: "filter is_Close (fst (run unreachable_server [])) = []"
    by blast
  from h m g t u show ?thesis by (intro conjI)
qed

subsection \<open>One context, one page, one navigation\<close>

text \<open>
  C6, as the specification words it: in every execution exactly one browser context is
  created. When the browser cannot be launched, none is.
\<close>

theorem one_context_counterexample:
  "length (filter is_NewContext (fst (script (session no_browser) []))) = 0"
  by (simp add: script_def with_exit_def run_def io_defs session_def no_browser_def healthy_def)

text \<open>
  C6, amended: in every execution of the script at most one browser context is created,
  at most one page is opened and at most one navigation is made, so the context is never
  used for a second page or a second navigation; whenever the browser launch succeeds,
  exactly one context is asked for, with the viewport 375 by 667.
\<close>

theorem one_context:
  "length (filter is_NewContext (fst (script cm []))) \<le> 1
   \<and> length (filter is_NewPage (fst (script cm []))) \<le> 1
   \<and> length (filter is_Goto (fst (script cm []))) \<le> 1
   \<and> (\<forall>pw b. enter cm = Inr pw \<longrightarrow> launch pw = Inr b \<longrightarrow>
        filter is_NewContext (fst (script cm []))
          = [NewContext b \<lparr>width = 375, height = 667\<rparr>])"
proof (cases "enter cm")
  case (Inl e)
  then show ?thesis by (simp add: script_enter_raises)
next
  case (Inr pw)
  then have "\<And>P. \<not> P CmEnter \<Longrightarrow> (\<And>eo. \<not> P (CmExit eo)) \<Longrightarrow>
      filter P (fst (script cm [])) = filter P (fst (run pw []))"
    by (rule script_filter)
  then have f: "filter is_NewContext (fst (script cm [])) = filter is_NewContext (fst (run pw []))"
    "filter is_NewPage (fst (script cm [])) = filter is_NewPage (fst (run pw []))"
    "filter is_Goto (fst (script cm [])) = filter is_Goto (fst (run pw []))"
    by simp_all
  show ?thesis
    unfolding f using Inr
    by (cases pw rule: run_cases) (simp_all add: spec_sequence_def)
qed

theorem one_context_witness:
  "enter (session unreachable_server) = Inr unreachable_server
   \<and> launch unreachable_server = Inr 0
   \<and> filter is_NewContext (fst (script (session unreachable_server) []))
        = [NewContext 0 \<lparr>width = 375, height = 667\<rparr>]"
proof -
  have h: "enter (session unreachable_server) = Inr unreachable_server"
    "launch unreachable_server = Inr 0"
    by (simp_all add: session_def unreachable_server_def healthy_def)
  from one_context [of "session unreachable_server"] h show ?thesis
    by blast
qed

subsection \<open>A navigation that fails\<close>

text \<open>
  C7: when the navigation raises, \<open>run\<close> ends with that exception and never reaches the
  screenshot: no screenshot call is made, by \<open>run\<close> or by the script as a whole, so no
  image file is written. The script ends with the exception (or with the one the exit of
  the context manager raises) rather than returning.
\<close>

theorem navigation_failure_skips_screenshot:
  assumes "Goto p url \<in> set (fst (run pw []))" and "goto pw p url = Inl e"
  shows "snd (run pw []) = Inl e \<and> filter is_Screenshot (fst (run pw [])) = []
    \<and> (\<forall>cm. enter cm = Inr pw \<longrightarrow>
          filter is_Screenshot (fst (script cm [])) = []
          \<and> (exit cm (Some e) = Inr False \<longrightarrow> snd (script cm []) = Inl e)
          \<and> (\<forall>e'. exit cm (Some e) = Inl e' \<longrightarrow> snd (script cm []) = Inl e'))"
proof -
  have r: "snd (run pw []) = Inl e \<and> filter is_Screenshot (fst (run pw [])) = []"
    using assms by (cases pw rule: run_cases) (auto simp: spec_sequence_def)
  then show ?thesis
    by (simp add: script_filter script_result)
qed

theorem navigation_failure_skips_screenshot_witness:
  "Goto 2 ''http://127.0.0.1:5173/'' \<in> set (fst (run unreachable_server []))
   \<and> goto unreachable_server 2 ''http://127.0.0.1:5173/''
        = Inl (PlaywrightError ''net::ERR_CONNECTION_REFUSED'')
   \<and> enter (session unreachable_server) = Inr unreachable_server
   \<and> exit (session unreachable_server) (Some (PlaywrightError ''net::ERR_CONNECTION_REFUSED''))
        = Inr False
   \<and> filter is_Screenshot (fst (script (session unreachable_server) [])) = []
   \<and> snd (script (session unreachable_server) [])
        = Inl (PlaywrightError ''net::ERR_CONNECTION_REFUSED'')"
proof -
  have h1: "Goto 2 ''http://127.0.0.1:5173/'' \<in> set (fst (run unreachable_server []))"
    by (simp add: run_def io_defs unreachable_server_def healthy_def)
  have h2: "goto unreachable_server 2 ''http://127.0.0.1:5173/''
        = Inl (PlaywrightError ''net::ERR_CONNECTION_REFUSED'')"
    by (simp add: unreachable_server_def healthy_def)
  have h3: "enter (session unreachable_server) = Inr unreachable_server"
    and h4: "exit (session unreachable_server)
        (Some (PlaywrightError ''net::ERR_CONNECTION_REFUSED'')) = Inr False"
    by (simp_all add: session_def)
  from navigation_failure_skips_screenshot [OF h1 h2] h3 h4 h1 h2 show ?thesis
    by blast
qed

subsection \<open>The page of the screenshot\<close>

text \<open>
  C8: whenever the script takes a screenshot, the page it is taken of was opened in the
  context that the script created with the viewport 375 by 667. So, for a browser whose
  screenshots show the viewport scaled by the device pixel ratio \<open>d\<close>, the captured image
  is \<open>d * 375\<close> pixels wide and \<open>d * 667\<close> pixels high.
\<close>

theorem screenshot_viewport:
  assumes "Screenshot p path \<in> set (fst (script cm []))"
  shows "\<exists>pw b c. enter cm = Inr pw \<and> launch pw = Inr b
     \<and> new_context pw b \<lparr>width = 375, height = 667\<rparr> = Inr c \<and> new_page pw c = Inr p
     \<and> NewContext b \<lparr>width = 375, height = 667\<rparr> \<in> set (fst (script cm []))
     \<and> NewPage c \<in> set (fst (script cm []))
     \<and> (\<forall>d img. renders_viewport d pw \<longrightarrow> screenshot pw p path = Inr img \<longrightarrow>
           px_width img = d * 375 \<and> px_height img = d * 667)"
proof -
  from script_calls [OF assms] obtain pw where pw: "enter cm = Inr pw"
    and m: "Screenshot p path \<in> set (fst (run pw []))"
    by auto
  have "\<exists>b c. launch pw = Inr b
     \<and> new_context pw b \<lparr>width = 375, height = 667\<rparr> = Inr c \<and> new_page pw c = Inr p
     \<and> NewContext b \<lparr>width = 375, height = 667\<rparr> \<in> set (fst (run pw []))
     \<and> NewPage c \<in> set (fst (run pw []))"
    using m by (cases pw rule: run_cases) (simp_all add: spec_sequence_def)
  then obtain b c where b: "launch pw = Inr b"
    and c: "new_context pw b \<lparr>width = 375, height = 667\<rparr> = Inr c"
    and p: "new_page pw c = Inr p"
    and n: "NewContext b \<lparr>width = 375, height = 667\<rparr> \<in> set (fst (run pw []))"
      "NewPage c \<in> set (fst (run pw []))"
    by blast
  have s: "NewContext b \<lparr>width = 375, height = 667\<rparr> \<in> set (fst (script cm []))"
    "NewPage c \<in> set (fst (script cm []))"
    using n by (simp_all add: script_trace [OF pw])
  have "px_width img = d * 375 \<and> px_height img = d * 667"
    if "renders_viewport d pw" and "screenshot pw p path = Inr img" for d img
    using that c p unfolding renders_viewport_def by fastforce
  with pw b c p s show ?thesis by blast
qed

theorem screenshot_viewport_witness:
  "Screenshot \<lparr>width = 375, height = 667\<rparr> ''jules-scratch/verification/verification.png''
      \<in> set (fst (script (session plain_browser) []))
   \<and> renders_viewport 1 plain_browser
   \<and> (\<exists>img. screenshot plain_browser \<lparr>width = 375, height = 667\<rparr>
          ''jules-scratch/verification/verification.png'' = Inr img
        \<and> px_width img = 375 \<and> px_height img = 667)"
proof -
  have h: "Screenshot \<lparr>width = 375, height = 667\<rparr> ''jules-scratch/verification/verification.png''
      \<in> set (fst (script (session plain_browser) []))"
    by (simp add: script_def with_exit_def run_def io_defs session_def plain_browser_def)
  have r: "renders_viewport 1 plain_browser"
    by (auto simp: renders_viewport_def plain_browser_def blank_page_def)
  have s: "screenshot plain_browser \<lparr>width = 375, height = 667\<rparr>
      ''jules-scratch/verification/verification.png''
        = Inr (blank_page [] \<lparr>width = 375, height = 667\<rparr>)"
    by (simp add: plain_browser_def)
  from screenshot_viewport [OF h] obtain pw
    where "enter (session plain_browser) = Inr pw"
      and "\<forall>d img. renders_viewport d pw \<longrightarrow>
        screenshot pw \<lparr>width = 375, height = 667\<rparr>
          ''jules-scratch/verification/verification.png'' = Inr img \<longrightarrow>
        px_width img = d * 375 \<and> px_height img = d * 667"
    by blast
  then have "\<forall>d img. renders_viewport d plain_browser \<longrightarrow>
        screenshot plain_browser \<lparr>width = 375, height = 667\<rparr>
          ''jules-scratch/verification/verification.png'' = Inr img \<longrightarrow>
        px_width img = d * 375 \<and> px_height img = d * 667"
    by (simp add: session_def)
  with r s have "px_width (blank_page [] \<lparr>width = 375, height = 667\<rparr>) = 1 * 375
      \<and> px_height (blank_page [] \<lparr>width = 375, height = 667\<rparr>) = 1 * 667"
    by blast
  with h r s show ?thesis by simp
qed

subsection \<open>Two executions\<close>

text \<open>
  Stripped of the objects they are made on, the calls of \<open>run\<close> are a non-empty initial
  segment of the listed sequence; a call that raises ends them; and a screenshot is only
  taken, at the fixed path, of a page opened in the 375 by 667 context and sent to the
  fixed address.
\<close>

lemma run_erased:
  "map erase (fst (run pw [])) = take (length (fst (run pw []))) (spec_sequence () () ())"
  by (cases pw rule: run_cases) (simp_all add: erase_def spec_sequence_def)

lemma run_erased_prefix:
  "prefix (map erase (fst (run pw []))) (spec_sequence () () ())
   \<and> map erase (fst (run pw [])) \<noteq> []"
  by (cases pw rule: run_cases) (simp_all add: erase_def spec_sequence_def)

lemma run_raised_last:
  "k \<in> set (fst (run pw [])) \<Longrightarrow> raised pw k = Some e \<Longrightarrow>
   snd (run pw []) = Inl e \<and> last (fst (run pw [])) = k"
  by (cases pw rule: run_cases) (auto simp: spec_sequence_def split: sum.splits)

lemma prefix_same_last:
  assumes "distinct zs" and "prefix xs zs" and "prefix ys zs"
    and "xs \<noteq> []" and "ys \<noteq> []" and "last xs = last ys"
  shows "xs = ys"
proof -
  have one: "us = vs"
    if "prefix us vs" "prefix vs zs" "us \<noteq> []" "last us = last vs" for us vs :: "'a list"
  proof -
    from that(1) obtain ws where vs: "vs = us @ ws"
      by (auto simp: prefix_def)
    from that(2) assms(1) have "distinct vs"
      by (auto simp: prefix_def)
    show ?thesis
    proof (cases "ws = []")
      case True
      with vs show ?thesis by simp
    next
      case False
      with vs that(4) have "last us = last ws" by simp
      moreover from False have "last ws \<in> set ws" by simp
      moreover from that(3) have "last us \<in> set us" by simp
      ultimately have "set us \<inter> set ws \<noteq> {}" by auto
      with \<open>distinct vs\<close> vs show ?thesis by simp
    qed
  qed
  from assms(2,3) have "prefix xs ys \<or> prefix ys xs"
    by (rule prefix_same_cases)
  then show ?thesis
  proof
    assume "prefix xs ys"
    then show ?thesis using assms(3,4,6) by (rule one)
  next
    assume "prefix ys xs"
    then have "ys = xs" using assms(2,5) assms(6) [symmetric] by (rule one)
    then show ?thesis by simp
  qed
qed

lemma distinct_spec_sequence: "distinct (spec_sequence b c p)"
  by (simp add: spec_sequence_def)

lemma run_screenshot_page:
  "Screenshot p path \<in> set (fst (run pw [])) \<Longrightarrow>
   path = ''jules-scratch/verification/verification.png''
   \<and> (\<exists>b c. new_context pw b \<lparr>width = 375, height = 667\<rparr> = Inr c \<and> new_page pw c = Inr p
        \<and> goto pw p ''http://127.0.0.1:5173/'' = Inr ())"
  by (cases pw rule: run_cases) (auto simp: spec_sequence_def)

text \<open>
  C9, as the specification words it: two executions perform the identical sequence of
  operations. They do not when the library fails in one of them and not in the other: with
  the server up, \<open>run\<close> takes the screenshot and closes the browser; with nothing listening
  at the address, it stops at the navigation.
\<close>

theorem script_deterministic_counterexample:
  "map erase (fst (run healthy [])) \<noteq> map erase (fst (run unreachable_server []))
   \<and> map erase (fst (script (session healthy) []))
        \<noteq> map erase (fst (script (session unreachable_server) []))"
  by (simp add: script_def with_exit_def run_def io_defs session_def unreachable_server_def
      healthy_def erase_def)

text \<open>
  C9, amended: the script is deterministic in what it asks of the library. In any two
  executions the operations of \<open>run\<close>, with their arguments (address, viewport, output
  path), are non-empty initial segments of the one listed sequence, so the two executions
  perform the same operations with the same arguments for as long as both go on. Two
  executions in which every call succeeds perform the identical sequence, the listed one
  between the entry and the exit of the context manager. Two executions in which the same
  call raises the same exception perform the identical sequence, which ends with that call
  and is followed by the exit of the context manager only. And when the page content is
  static (in both executions the page at the address, seen through the viewport, shows the
  same image), the two screenshots are written to the same fixed path and are the same
  image.
\<close>

theorem script_deterministic:
  "(prefix (map erase (fst (run pw1 []))) (spec_sequence () () ())
      \<and> map erase (fst (run pw1 [])) \<noteq> []
      \<and> prefix (map erase (fst (run pw2 []))) (spec_sequence () () ())
      \<and> map erase (fst (run pw2 [])) \<noteq> []
      \<and> (prefix (map erase (fst (run pw1 []))) (map erase (fst (run pw2 [])))
           \<or> prefix (map erase (fst (run pw2 []))) (map erase (fst (run pw1 [])))))
   \<and> (\<forall>b1 c1 p1 img1 b2 c2 p2 img2.
        launch pw1 = Inr b1 \<longrightarrow> new_context pw1 b1 \<lparr>width = 375, height = 667\<rparr> = Inr c1 \<longrightarrow>
        new_page pw1 c1 = Inr p1 \<longrightarrow> goto pw1 p1 ''http://127.0.0.1:5173/'' = Inr () \<longrightarrow>
        screenshot pw1 p1 ''jules-scratch/verification/verification.png'' = Inr img1 \<longrightarrow>
        launch pw2 = Inr b2 \<longrightarrow> new_context pw2 b2 \<lparr>width = 375, height = 667\<rparr> = Inr c2 \<longrightarrow>
        new_page pw2 c2 = Inr p2 \<longrightarrow> goto pw2 p2 ''http://127.0.0.1:5173/'' = Inr () \<longrightarrow>
        screenshot pw2 p2 ''jules-scratch/verification/verification.png'' = Inr img2 \<longrightarrow>
        map erase (fst (run pw1 [])) = spec_sequence () () ()
        \<and> map erase (fst (run pw2 [])) = spec_sequence () () ()
        \<and> (\<forall>cm1 cm2. enter cm1 = Inr pw1 \<longrightarrow> enter cm2 = Inr pw2 \<longrightarrow>
              close pw1 b1 = Inr () \<longrightarrow> close pw2 b2 = Inr () \<longrightarrow>
              map erase (fst (script cm1 [])) = CmEnter # spec_sequence () () () @ [CmExit None]
              \<and> map erase (fst (script cm2 [])) = CmEnter # spec_sequence () () () @ [CmExit None]))
   \<and> (\<forall>k1 k2 e.
        k1 \<in> set (fst (run pw1 [])) \<longrightarrow> raised pw1 k1 = Some e \<longrightarrow>
        k2 \<in> set (fst (run pw2 [])) \<longrightarrow> raised pw2 k2 = Some e \<longrightarrow> erase k1 = erase k2 \<longrightarrow>
        map erase (fst (run pw1 [])) = map erase (fst (run pw2 []))
        \<and> last (map erase (fst (run pw1 []))) = erase k1
        \<and> (\<forall>cm1 cm2. enter cm1 = Inr pw1 \<longrightarrow> enter cm2 = Inr pw2 \<longrightarrow>
              map erase (fst (script cm1 []))
                = CmEnter # map erase (fst (run pw1 [])) @ [CmExit (Some e)]
              \<and> map erase (fst (script cm2 []))
                = CmEnter # map erase (fst (run pw1 [])) @ [CmExit (Some e)]))
   \<and> (\<forall>shot p1 p2 path1 path2 img1 img2.
        static_content shot ''http://127.0.0.1:5173/'' \<lparr>width = 375, height = 667\<rparr> pw1 \<longrightarrow>
        static_content shot ''http://127.0.0.1:5173/'' \<lparr>width = 375, height = 667\<rparr> pw2 \<longrightarrow>
        Screenshot p1 path1 \<in> set (fst (run pw1 [])) \<longrightarrow>
        Screenshot p2 path2 \<in> set (fst (run pw2 [])) \<longrightarrow>
        screenshot pw1 p1 path1 = Inr img1 \<longrightarrow> screenshot pw2 p2 path2 = Inr img2 \<longrightarrow>
        path1 = ''jules-scratch/verification/verification.png''
        \<and> path2 = ''jules-scratch/verification/verification.png'' \<and> img1 = img2)"
proof -
  let ?S = "spec_sequence () () ()"
  let ?E1 = "map erase (fst (run pw1 []))" and ?E2 = "map erase (fst (run pw2 []))"
  let ?n1 = "length (fst (run pw1 []))" and ?n2 = "length (fst (run pw2 []))"
  have e1: "?E1 = take ?n1 ?S" and e2: "?E2 = take ?n2 ?S"
    by (rule run_erased)+
  have cmp: "prefix ?E1 ?E2 \<or> prefix ?E2 ?E1"
  proof (cases "?n1 \<le> ?n2")
    case True
    then have "take ?n1 ?S = take ?n1 (take ?n2 ?S)"
      by (simp add: min_def)
    then show ?thesis
      unfolding e1 e2 by (metis take_is_prefix)
  next
    case False
    then have "take ?n2 ?S = take ?n2 (take ?n1 ?S)"
      by (simp add: min_def)
    then show ?thesis
      unfolding e1 e2 by (metis take_is_prefix)
  qed
  have a: "prefix ?E1 ?S \<and> ?E1 \<noteq> [] \<and> prefix ?E2 ?S \<and> ?E2 \<noteq> []
      \<and> (prefix ?E1 ?E2 \<or> prefix ?E2 ?E1)"
    using run_erased_prefix [of pw1] run_erased_prefix [of pw2] cmp by blast
  have full: "map erase (fst (run pw [])) = ?S
      \<and> (\<forall>cm. enter cm = Inr pw \<longrightarrow> close pw b = Inr () \<longrightarrow>
            map erase (fst (script cm [])) = CmEnter # ?S @ [CmExit None])"
    if "launch pw = Inr b" "new_context pw b \<lparr>width = 375, height = 667\<rparr> = Inr c"
      "new_page pw c = Inr p" "goto pw p ''http://127.0.0.1:5173/'' = Inr ()"
      "screenshot pw p ''jules-scratch/verification/verification.png'' = Inr img"
    for pw :: "('x, 'y, 'z) playwright" and b c p img
  proof -
    have r: "run pw [] = (spec_sequence b c p, close pw b)"
      using that by (simp add: run_def io_defs spec_sequence_def)
    then have m: "map erase (fst (run pw [])) = ?S"
      by (simp add: spec_sequence_def erase_def)
    have "map erase (fst (script cm [])) = CmEnter # ?S @ [CmExit None]"
      if "enter cm = Inr pw" "close pw b = Inr ()" for cm
      using m r that by (simp add: script_trace erase_def)
    with m show ?thesis by blast
  qed
  have fail: "last (map erase (fst (run pw []))) = erase k
      \<and> (\<forall>cm. enter cm = Inr pw \<longrightarrow>
            map erase (fst (script cm []))
              = CmEnter # map erase (fst (run pw [])) @ [CmExit (Some e)])"
    if "k \<in> set (fst (run pw []))" "raised pw k = Some e"
    for pw :: "('x, 'y, 'z) playwright" and k e
  proof -
    from run_raised_last [OF that]
    have s: "snd (run pw []) = Inl e" and l: "last (fst (run pw [])) = k"
      by blast+
    from that(1) have "fst (run pw []) \<noteq> []"
      by auto
    with l have m: "last (map erase (fst (run pw []))) = erase k"
      by (simp add: last_map)
    have "map erase (fst (script cm []))
        = CmEnter # map erase (fst (run pw [])) @ [CmExit (Some e)]"
      if "enter cm = Inr pw" for cm
      using s that by (simp add: script_trace erase_def)
    with m show ?thesis by blast
  qed
  have b: "?E1 = ?S \<and> ?E2 = ?S
      \<and> (\<forall>cm1 cm2. enter cm1 = Inr pw1 \<longrightarrow> enter cm2 = Inr pw2 \<longrightarrow>
            close pw1 b1 = Inr () \<longrightarrow> close pw2 b2 = Inr () \<longrightarrow>
            map erase (fst (script cm1 [])) = CmEnter # ?S @ [CmExit None]
            \<and> map erase (fst (script cm2 [])) = CmEnter # ?S @ [CmExit None])"
    if "launch pw1 = Inr b1" "new_context pw1 b1 \<lparr>width = 375, height = 667\<rparr> = Inr c1"
      "new_page pw1 c1 = Inr p1" "goto pw1 p1 ''http://127.0.0.1:5173/'' = Inr ()"
      "screenshot pw1 p1 ''jules-scratch/verification/verification.png'' = Inr img1"
      "launch pw2 = Inr b2" "new_context pw2 b2 \<lparr>width = 375, height = 667\<rparr> = Inr c2"
      "new_page pw2 c2 = Inr p2" "goto pw2 p2 ''http://127.0.0.1:5173/'' = Inr ()"
      "screenshot pw2 p2 ''jules-scratch/verification/verification.png'' = Inr img2"
    for b1 c1 p1 img1 b2 c2 p2 img2
    using full [OF that(1-5)] full [OF that(6-10)] by blast
  have c: "?E1 = ?E2 \<and> last ?E1 = erase k1
      \<and> (\<forall>cm1 cm2. enter cm1 = Inr pw1 \<longrightarrow> enter cm2 = Inr pw2 \<longrightarrow>
            map erase (fst (script cm1 [])) = CmEnter # ?E1 @ [CmExit (Some e)]
            \<and> map erase (fst (script cm2 [])) = CmEnter # ?E1 @ [CmExit (Some e)])"
    if "k1 \<in> set (fst (run pw1 []))" "raised pw1 k1 = Some e"
      "k2 \<in> set (fst (run pw2 []))" "raised pw2 k2 = Some e" "erase k1 = erase k2"
    for k1 k2 e
  proof -
    from fail [OF that(1,2)]
    have l1: "last ?E1 = erase k1"
      and s1: "\<forall>cm. enter cm = Inr pw1 \<longrightarrow>
          map erase (fst (script cm [])) = CmEnter # ?E1 @ [CmExit (Some e)]"
      by blast+
    from fail [OF that(3,4)]
    have l2: "last ?E2 = erase k2"
      and s2: "\<forall>cm. enter cm = Inr pw2 \<longrightarrow>
          map erase (fst (script cm [])) = CmEnter # ?E2 @ [CmExit (Some e)]"
      by blast+
    from l1 l2 that(5) have "last ?E1 = last ?E2"
      by simp
    with a have eq: "?E1 = ?E2"
      using prefix_same_last [OF distinct_spec_sequence, of ?E1 "()" "()" "()" ?E2] by blast
    from s2 have s2': "\<forall>cm. enter cm = Inr pw2 \<longrightarrow>
          map erase (fst (script cm [])) = CmEnter # ?E1 @ [CmExit (Some e)]"
      unfolding eq .
    from eq l1 s1 s2' show ?thesis by blast
  qed
  have d: "path1 = ''jules-scratch/verification/verification.png''
      \<and> path2 = ''jules-scratch/verification/verification.png'' \<and> img1 = img2"
    if "static_content shot ''http://127.0.0.1:5173/'' \<lparr>width = 375, height = 667\<rparr> pw1"
      "static_content shot ''http://127.0.0.1:5173/'' \<lparr>width = 375, height = 667\<rparr> pw2"
      "Screenshot p1 path1 \<in> set (fst (run pw1 []))" "Screenshot p2 path2 \<in> set (fst (run pw2 []))"
      "screenshot pw1 p1 path1 = Inr img1" "screenshot pw2 p2 path2 = Inr img2"
    for shot p1 p2 path1 path2 img1 img2
  proof -
    from run_screenshot_page [OF that(3)] obtain b1 c1
      where p1: "path1 = ''jules-scratch/verification/verification.png''"
        and "new_context pw1 b1 \<lparr>width = 375, height = 667\<rparr> = Inr c1" "new_page pw1 c1 = Inr p1"
        "goto pw1 p1 ''http://127.0.0.1:5173/'' = Inr ()"
      by blast
    with that(1,5) have i1: "img1 = shot"
      unfolding static_content_def by blast
    from run_screenshot_page [OF that(4)] obtain b2 c2
      where p2: "path2 = ''jules-scratch/verification/verification.png''"
        and "new_context pw2 b2 \<lparr>width = 375, height = 667\<rparr> = Inr c2" "new_page pw2 c2 = Inr p2"
        "goto pw2 p2 ''http://127.0.0.1:5173/'' = Inr ()"
      by blast
    with that(2,6) have i2: "img2 = shot"
      unfolding static_content_def by blast
    from p1 p2 i1 i2 show ?thesis by simp
  qed
  show ?thesis
    apply (rule conjI [OF a])
    apply (intro conjI)
      apply (intro allI impI, rule b, assumption+)
     apply (intro allI impI, rule c, assumption+)
    apply (intro allI impI, rule d, assumption+)
    done
qed

theorem script_deterministic_witness:
  "launch healthy = Inr 0 \<and> new_context healthy 0 \<lparr>width = 375, height = 667\<rparr> = Inr 1
   \<and> new_page healthy 1 = Inr 2 \<and> goto healthy 2 ''http://127.0.0.1:5173/'' = Inr ()
   \<and> screenshot healthy 2 ''jules-scratch/verification/verification.png'' = Inr still_page
   \<and> close healthy 0 = Inr ()
   \<and> launch second_run = Inr 7 \<and> new_context second_run 7 \<lparr>width = 375, height = 667\<rparr> = Inr 8
   \<and> new_page second_run 8 = Inr 9 \<and> goto second_run 9 ''http://127.0.0.1:5173/'' = Inr ()
   \<and> screenshot second_run 9 ''jules-scratch/verification/verification.png'' = Inr still_page
   \<and> close second_run 7 = Inr ()
   \<and> enter (session healthy) = Inr healthy \<and> enter (session second_run) = Inr second_run
   \<and> map erase (fst (script (session healthy) []))
        = CmEnter # spec_sequence () () () @ [CmExit None]
   \<and> map erase (fst (script (session second_run) []))
        = CmEnter # spec_sequence () () () @ [CmExit None]
   \<and> static_content still_page ''http://127.0.0.1:5173/'' \<lparr>width = 375, height = 667\<rparr> healthy
   \<and> static_content still_page ''http://127.0.0.1:5173/'' \<lparr>width = 375, height = 667\<rparr> second_run
   \<and> Screenshot 2 ''jules-scratch/verification/verification.png'' \<in> set (fst (run healthy []))
   \<and> Screenshot 9 ''jules-scratch/verification/verification.png'' \<in> set (fst (run second_run []))
   \<and> Goto 2 ''http://127.0.0.1:5173/'' \<in> set (fst (run unreachable_server []))
   \<and> raised unreachable_server (Goto 2 ''http://127.0.0.1:5173/'')
        = Some (PlaywrightError ''net::ERR_CONNECTION_REFUSED'')
   \<and> Goto 9 ''http://127.0.0.1:5173/'' \<in> set (fst (run second_unreachable []))
   \<and> raised second_unreachable (Goto 9 ''http://127.0.0.1:5173/'')
        = Some (PlaywrightError ''net::ERR_CONNECTION_REFUSED'')
   \<and> erase (Goto (2::nat) ''http://127.0.0.1:5173/'' :: (nat, nat, nat) call)
        = erase (Goto (9::nat) ''http://127.0.0.1:5173/'' :: (nat, nat, nat) call)
   \<and> map erase (fst (run unreachable_server [])) = map erase (fst (run second_unreachable []))"
proof -
  have h1: "launch healthy = Inr 0" "new_context healthy 0 \<lparr>width = 375, height = 667\<rparr> = Inr 1"
    "new_page healthy 1 = Inr 2" "goto healthy 2 ''http://127.0.0.1:5173/'' = Inr ()"
    "screenshot healthy 2 ''jules-scratch/verification/verification.png'' = Inr still_page"
    "close healthy 0 = Inr ()"
    by (simp_all add: healthy_def still_page_def)
  have h2: "launch second_run = Inr 7"
    "new_context second_run 7 \<lparr>width = 375, height = 667\<rparr> = Inr 8"
    "new_page second_run 8 = Inr 9" "goto second_run 9 ''http://127.0.0.1:5173/'' = Inr ()"
    "screenshot second_run 9 ''jules-scratch/verification/verification.png'' = Inr still_page"
    "close second_run 7 = Inr ()"
    by (simp_all add: second_run_def healthy_def still_page_def)
  have en: "enter (session healthy) = Inr healthy" "enter (session second_run) = Inr second_run"
    by (simp_all add: session_def)
  have st: "static_content still_page ''http://127.0.0.1:5173/'' \<lparr>width = 375, height = 667\<rparr> healthy"
    "static_content still_page ''http://127.0.0.1:5173/'' \<lparr>width = 375, height = 667\<rparr> second_run"
    by (simp_all add: static_content_def still_page_def second_run_def healthy_def)
  have m: "Screenshot 2 ''jules-scratch/verification/verification.png'' \<in> set (fst (run healthy []))"
    "Screenshot 9 ''jules-scratch/verification/verification.png'' \<in> set (fst (run second_run []))"
    by (simp_all add: run_def io_defs second_run_def healthy_def)
  have g: "Goto 2 ''http://127.0.0.1:5173/'' \<in> set (fst (run unreachable_server []))"
    "raised unreachable_server (Goto 2 ''http://127.0.0.1:5173/'')
        = Some (PlaywrightError ''net::ERR_CONNECTION_REFUSED'')"
    "Goto 9 ''http://127.0.0.1:5173/'' \<in> set (fst (run second_unreachable []))"
    "raised second_unreachable (Goto 9 ''http://127.0.0.1:5173/'')
        = Some (PlaywrightError ''net::ERR_CONNECTION_REFUSED'')"
    by (simp_all add: run_def io_defs unreachable_server_def second_unreachable_def
        second_run_def healthy_def)
  have er: "erase (Goto (2::nat) ''http://127.0.0.1:5173/'' :: (nat, nat, nat) call)
        = erase (Goto (9::nat) ''http://127.0.0.1:5173/'' :: (nat, nat, nat) call)"
    by (simp add: erase_def)
  note both = script_deterministic [of healthy second_run, THEN conjunct2, THEN conjunct1,
      rule_format, OF h1(1-5) h2(1-5)]
  note scripts = both [THEN conjunct2, THEN conjunct2, rule_format, OF en h1(6) h2(6)]
  have full: "map erase (fst (script (session healthy) []))
        = CmEnter # spec_sequence () () () @ [CmExit None]"
    "map erase (fst (script (session second_run) []))
        = CmEnter # spec_sequence () () () @ [CmExit None]"
    using scripts by (rule conjunct1, rule conjunct2)
  have same: "map erase (fst (run unreachable_server []))
      = map erase (fst (run second_unreachable []))"
    using script_deterministic [of unreachable_server second_unreachable, THEN conjunct2,
        THEN conjunct2, THEN conjunct1, rule_format, OF g(1) g(2) g(3) g(4) er]
    by (rule conjunct1)
  from h1 h2 en full st m g er same show ?thesis by (intro conjI)
qed

subsection \<open>The explicit close\<close>

text \<open>
  C10: \<open>run\<close> calls \<open>close\<close> exactly when the launch, the creation of the context, the
  creation of the page, the navigation and the screenshot all succeed. When one of these
  calls raises, the script makes no \<open>close\<close> call at all: the only thing that follows the
  failing call is the exit of the \<open>sync_playwright\<close> context manager, which is handed the
  exception.
\<close>

theorem close_skipped_on_failure:
  "((\<exists>x. Close x \<in> set (fst (run pw []))) \<longleftrightarrow>
      (\<exists>b c p img. launch pw = Inr b \<and> new_context pw b \<lparr>width = 375, height = 667\<rparr> = Inr c
         \<and> new_page pw c = Inr p \<and> goto pw p ''http://127.0.0.1:5173/'' = Inr ()
         \<and> screenshot pw p ''jules-scratch/verification/verification.png'' = Inr img))
   \<and> (\<forall>c e cm. c \<in> set (fst (run pw [])) \<longrightarrow> \<not> is_Close c \<longrightarrow> raised pw c = Some e \<longrightarrow>
        enter cm = Inr pw \<longrightarrow>
        filter is_Close (fst (script cm [])) = []
        \<and> fst (script cm []) = CmEnter # fst (run pw []) @ [CmExit (Some e)])"
proof -
  have a: "(\<exists>x. Close x \<in> set (fst (run pw []))) \<longleftrightarrow>
      (\<exists>b c p img. launch pw = Inr b \<and> new_context pw b \<lparr>width = 375, height = 667\<rparr> = Inr c
         \<and> new_page pw c = Inr p \<and> goto pw p ''http://127.0.0.1:5173/'' = Inr ()
         \<and> screenshot pw p ''jules-scratch/verification/verification.png'' = Inr img)"
    by (cases pw rule: run_cases) (simp_all add: spec_sequence_def)
  have b: "filter is_Close (fst (script cm [])) = []
        \<and> fst (script cm []) = CmEnter # fst (run pw []) @ [CmExit (Some e)]"
    if "c \<in> set (fst (run pw []))" "\<not> is_Close c" "raised pw c = Some e" "enter cm = Inr pw"
    for c e cm
  proof -
    have "snd (run pw []) = Inl e \<and> filter is_Close (fst (run pw [])) = []"
      using that(1-3)
      by (cases pw rule: run_cases) (auto simp: spec_sequence_def split: sum.splits)
    with that(4) show ?thesis
      by (simp add: script_filter script_trace)
  qed
  from a b show ?thesis by blast
qed

theorem close_skipped_on_failure_witness:
  "Screenshot 2 ''jules-scratch/verification/verification.png'' \<in> set (fst (run read_only_disk []))
   \<and> \<not> is_Close (Screenshot (2::nat) ''jules-scratch/verification/verification.png'' :: (nat, nat, nat) call)
   \<and> raised read_only_disk (Screenshot 2 ''jules-scratch/verification/verification.png'')
        = Some (PlaywrightError ''EROFS: read-only file system'')
   \<and> enter (session read_only_disk) = Inr read_only_disk
   \<and> filter is_Close (fst (script (session read_only_disk) [])) = []
   \<and> fst (script (session read_only_disk) [])
        = CmEnter # fst (run read_only_disk [])
            @ [CmExit (Some (PlaywrightError ''EROFS: read-only file system''))]"
proof -
  have h1: "Screenshot 2 ''jules-scratch/verification/verification.png''
      \<in> set (fst (run read_only_disk []))"
    by (simp add: run_def io_defs read_only_disk_def healthy_def)
  have h2: "\<not> is_Close (Screenshot (2::nat) ''jules-scratch/verification/verification.png''
      :: (nat, nat, nat) call)"
    by simp
  have h3: "raised read_only_disk (Screenshot 2 ''jules-scratch/verification/verification.png'')
        = Some (PlaywrightError ''EROFS: read-only file system'')"
    by (simp add: read_only_disk_def healthy_def)
  have h4: "enter (session read_only_disk) = Inr read_only_disk"
    by (simp add: session_def)
  from close_skipped_on_failure [of read_only_disk] h1 h2 h3 h4
  have "filter is_Close (fst (script (session read_only_disk) [])) = []
        \<and> fst (script (session read_only_disk) [])
          = CmEnter # fst (run read_only_disk [])
              @ [CmExit (Some (PlaywrightError ''EROFS: read-only file system''))]"
    by blast
  with h1 h2 h3 h4 show ?thesis by (intro conjI) blast+
qed

end
